theory Spec2Isabelle
  imports Main
begin

section \<open>Data of pkg/users/resolver.go\<close>

text \<open>
  The git provider's user (\<^verbatim>\<open>scm.User\<close>), with the fields the resolver reads or
  writes, and the record the resolver produces (\<^verbatim>\<open>jenkinsv1.UserDetails\<close>), with
  the three fields \<^verbatim>\<open>GitUserToUser\<close> fills; all other fields keep their zero value.
  Go strings are byte sequences, as \<^typ>\<open>string\<close> is.
\<close>

record User =
  scm_Login :: string
  scm_Name :: string
  scm_Email :: string
  scm_Link :: string
  scm_Avatar :: string

record UserDetails =
  ud_Login :: string
  ud_Name :: string
  ud_Email :: string

text \<open>A commit signature (\<^verbatim>\<open>object.Signature\<close>): its name and email.\<close>

record Signature =
  sig_Name :: string
  sig_Email :: string

text \<open>
  A Go error value: a base error with its message, or \<^verbatim>\<open>errors.Wrapf(cause, msg)\<close>.
  A value of type \<^verbatim>\<open>error\<close> that may be nil is an option of it.
\<close>

datatype error = Err string | Wrapf error string

fun Error_text :: "error \<Rightarrow> string" where
  "Error_text (Err m) = m"
| "Error_text (Wrapf cause m) = m @ '': '' @ Error_text cause"

text \<open>A call either returns or panics (a nil pointer is dereferenced).\<close>

datatype 'a outcome = Panic | Return 'a

section \<open>Collaborators and state\<close>

text \<open>
  Every call the resolver makes on its cache or on the git provider is logged, so that
  "without invoking the platform" and "without writing the cache" are statements about
  the log.
\<close>

datatype event =
  CacheGetUser string
| CacheCreateOrUpdateUser UserDetails
| UsersFindLogin string

record world =
  cache :: "string \<rightharpoonup> UserDetails"
  trace :: "event list"

text \<open>
  \<^verbatim>\<open>GitProvider.Users.FindLogin\<close> is a remote call: what it answers may depend on
  everything that happened before, so the client is a function of the log and the login.
  It yields the user pointer (nil is \<open>None\<close>) and the error (nil is \<open>None\<close>); the
  response metadata is dropped by the caller.
\<close>

type_synonym Client = "event list \<Rightarrow> string \<Rightarrow> User option \<times> error option"

record GitUserResolver =
  GitProvider :: "Client option"

text \<open>
  The library functions the resolver calls are parameters: \<^verbatim>\<open>scmhelpers.IsScmNotFound\<close>
  (on an error that may be nil), \<^verbatim>\<open>naming.ToValidName\<close>, \<^verbatim>\<open>strings.ToLower\<close>, and
  the storage behind the cache, which may refuse a write with an error. The resolver
  hands \<^verbatim>\<open>IsScmNotFound\<close> whatever error \<^verbatim>\<open>FindLogin\<close> returned, nil included;
  a statement about an answer without error therefore says that the nil error is not
  classified as not-found.
\<close>

record env =
  IsScmNotFound :: "error option \<Rightarrow> bool"
  ToValidName :: "string \<Rightarrow> string"
  ToLower :: "string \<Rightarrow> string"
  StorageError :: "event list \<Rightarrow> UserDetails \<Rightarrow> error option"

text \<open>
  \<^verbatim>\<open>strings.Replace(s, old, new, -1)\<close> for a one-byte \<open>old\<close> and a one-byte \<open>new\<close>:
  every occurrence is replaced.
\<close>

definition strings_Replace :: "string \<Rightarrow> char \<Rightarrow> char \<Rightarrow> string" where
  "strings_Replace s old new = map (\<lambda>c. if c = old then new else c) s"

text \<open>
  Modelled from the spec: the user cache (type \<^verbatim>\<open>UserDetailService\<close>, methods
  \<^verbatim>\<open>GetUser\<close> and \<^verbatim>\<open>CreateOrUpdateUser\<close>), which resolver.go uses and does not define.
  The spec: \<^verbatim>\<open>GetUser(key)\<close> is a pure lookup, a miss returns nil and is no failure;
  \<^verbatim>\<open>CreateOrUpdateUser(record)\<close> is an upsert keyed by the record's key that fails
  only on an underlying storage error. The key of a record is its \<^verbatim>\<open>Name\<close> field, the
  field \<^verbatim>\<open>Resolve\<close> looks records up by and sets to the canonical key. A write that
  the storage accepts replaces the entry under that key.
\<close>

definition GetUser :: "string \<Rightarrow> world \<Rightarrow> UserDetails option \<times> world" where
  "GetUser key s = (cache s key, s\<lparr>trace := trace s @ [CacheGetUser key]\<rparr>)"

definition CreateOrUpdateUser :: "env \<Rightarrow> UserDetails \<Rightarrow> world \<Rightarrow> error option \<times> world" where
  "CreateOrUpdateUser e u s =
     (case StorageError e (trace s) u of
        Some err \<Rightarrow> (Some err, s\<lparr>trace := trace s @ [CacheCreateOrUpdateUser u]\<rparr>)
      | None \<Rightarrow>
          (None, s\<lparr>cache := (cache s)(ud_Name u \<mapsto> u),
                    trace := trace s @ [CacheCreateOrUpdateUser u]\<rparr>))"

definition FindLogin :: "Client \<Rightarrow> string \<Rightarrow> world \<Rightarrow> (User option \<times> error option) \<times> world" where
  "FindLogin client login s =
     (client (trace s) login, s\<lparr>trace := trace s @ [UsersFindLogin login]\<rparr>)"

section \<open>The resolver\<close>

definition GitUserToUser :: "User \<Rightarrow> UserDetails" where
  "GitUserToUser gitUser =
     \<lparr>ud_Login = scm_Login gitUser, ud_Name = scm_Name gitUser, ud_Email = scm_Email gitUser\<rparr>"

text \<open>
  \<^verbatim>\<open>Resolve\<close>, branch by branch. The receiver and the user are pointers that may be
  nil. A resolver whose \<^verbatim>\<open>GitProvider\<close> is nil panics where the login path
  dereferences it. The result is Go's pair of a record pointer and an error.
\<close>

type_synonym result = "UserDetails option \<times> error option"

definition Resolve :: "env \<Rightarrow> GitUserResolver option \<Rightarrow> User option \<Rightarrow> world \<Rightarrow> result outcome \<times> world" where
  "Resolve e r user s =
     (case r of
        None \<Rightarrow> (Return (None, None), s)
      | Some rr \<Rightarrow>
     (case user of
        None \<Rightarrow> (Return (None, None), s)
      | Some usr \<Rightarrow>
     if scm_Name usr = [] then (Return (None, None), s)
     else
     (case GetUser (scm_Name usr) s of
        (Some u, s1) \<Rightarrow> (Return (Some u, None), s1)
      | (None, s1) \<Rightarrow>
     if scm_Login usr = [] then
       (let u = GitUserToUser usr in
        case CreateOrUpdateUser e u s1 of
          (Some err, s2) \<Rightarrow> (Return (Some u, Some (Wrapf err ''failed to cache User'')), s2)
        | (None, s2) \<Rightarrow> (Return (Some u, None), s2))
     else
     (case GitProvider rr of
        None \<Rightarrow> (Panic, s1)
      | Some client \<Rightarrow>
     (case FindLogin client (scm_Login usr) s1 of
        ((None, err), s2) \<Rightarrow> (Return (None, None), s2)
      | ((Some scmUser, err), s2) \<Rightarrow>
     if IsScmNotFound e err then (Return (None, None), s2)
     else
     (case err of
        Some err' \<Rightarrow>
          (Return (None, Some (Wrapf err' (''failed to find user '' @ scm_Login usr))), s2)
      | None \<Rightarrow>
       (let u = GitUserToUser scmUser;
            login = scm_Login scmUser;
            login = (if login = [] then ToLower e (strings_Replace (scm_Name scmUser) CHR '' '' CHR ''-'')
                     else login);
            id = ToValidName e login;
            u = u\<lparr>ud_Name := ToValidName e id\<rparr>
        in case CreateOrUpdateUser e u s2 of
             (Some err', s3) \<Rightarrow> (Return (None, Some (Wrapf err' ''failed to create User'')), s3)
           | (None, s3) \<Rightarrow> (Return (Some u, None), s3))))))))"

text \<open>
  \<^verbatim>\<open>GitSignatureAsUser\<close>: the signature pointer is dereferenced first (nil panics);
  a signature with neither name nor email is not resolved; otherwise a user with that
  name and email, and every other field empty, goes to \<^verbatim>\<open>Resolve\<close>.
\<close>

definition GitSignatureAsUser :: "env \<Rightarrow> GitUserResolver option \<Rightarrow> Signature option \<Rightarrow> world \<Rightarrow> result outcome \<times> world" where
  "GitSignatureAsUser e r signature s =
     (case signature of
        None \<Rightarrow> (Panic, s)
      | Some sg \<Rightarrow>
          if sig_Name sg = [] \<and> sig_Email sg = [] then (Return (None, None), s)
          else
            (let gitUser = \<lparr>scm_Login = [], scm_Name = sig_Name sg, scm_Email = sig_Email sg,
                             scm_Link = [], scm_Avatar = []\<rparr>
             in Resolve e r (Some gitUser) s))"

text \<open>
  \<^verbatim>\<open>GitUserSliceAsUserDetailsSlice\<close>: the loop over the slice, with \<open>answer\<close> the
  slice built so far. A nil slice is the empty list. A panic inside \<^verbatim>\<open>Resolve\<close>
  ends the loop as a panic.
\<close>

fun GitUserSliceAsUserDetailsSlice_loop ::
  "env \<Rightarrow> GitUserResolver option \<Rightarrow> User list \<Rightarrow> UserDetails list \<Rightarrow> world
     \<Rightarrow> (UserDetails list \<times> error option) outcome \<times> world" where
  "GitUserSliceAsUserDetailsSlice_loop e r [] answer s = (Return (answer, None), s)"
| "GitUserSliceAsUserDetailsSlice_loop e r (user # users) answer s =
     (case Resolve e r (Some user) s of
        (Panic, s') \<Rightarrow> (Panic, s')
      | (Return (u, Some err), s') \<Rightarrow> (Return ([], Some err), s')
      | (Return (None, None), s') \<Rightarrow> GitUserSliceAsUserDetailsSlice_loop e r users answer s'
      | (Return (Some d, None), s') \<Rightarrow>
          GitUserSliceAsUserDetailsSlice_loop e r users (answer @ [d]) s')"

definition GitUserSliceAsUserDetailsSlice ::
  "env \<Rightarrow> GitUserResolver option \<Rightarrow> User list \<Rightarrow> world
     \<Rightarrow> (UserDetails list \<times> error option) outcome \<times> world" where
  "GitUserSliceAsUserDetailsSlice e r users s = GitUserSliceAsUserDetailsSlice_loop e r users [] s"

text \<open>
  The batch operation as the spec words it (a second definition, to be compared with the
  loop above): resolve each identity in input order; skip an identity that resolves to
  nil; the first resolution error aborts the batch and is returned with no result
  sequence.
\<close>

fun ResolveBatch_spec ::
  "env \<Rightarrow> GitUserResolver option \<Rightarrow> User list \<Rightarrow> world
     \<Rightarrow> (UserDetails list \<times> error option) outcome \<times> world" where
  "ResolveBatch_spec e r [] s = (Return ([], None), s)"
| "ResolveBatch_spec e r (identity # identities) s =
     (case Resolve e r (Some identity) s of
        (Panic, s') \<Rightarrow> (Panic, s')
      | (Return (d, Some err), s') \<Rightarrow> (Return ([], Some err), s')
      | (Return (d, None), s') \<Rightarrow>
          (case ResolveBatch_spec e r identities s' of
             (Return (ds, None), s'') \<Rightarrow>
               (Return ((case d of None \<Rightarrow> ds | Some x \<Rightarrow> x # ds), None), s'')
           | failed \<Rightarrow> failed))"

section \<open>A test double\<close>

text \<open>
  A concrete environment in the manner of the spec's examples: a directory that knows
  \<open>dave\<close>, answers \<open>erin\<close> with a user and a server error, \<open>frank\<close> with no user and
  a connection error, \<open>grace\<close> with a user that has no login, and anything else with no
  user and the not-found error. The storage of \<open>failing_storage_env\<close> refuses every
  write; the sanitizer of \<open>marking_env\<close> is not idempotent, so that each of its
  applications shows.
\<close>

definition demo_ToLower :: "string \<Rightarrow> string" where
  "demo_ToLower s =
     map (\<lambda>c. case map_of (zip ''ABCDEFGHIJKLMNOPQRSTUVWXYZ'' ''abcdefghijklmnopqrstuvwxyz'') c of
                 Some d \<Rightarrow> d | None \<Rightarrow> c) s"

definition demo_ToValidName :: "string \<Rightarrow> string" where
  "demo_ToValidName s = strings_Replace (demo_ToLower s) CHR '' '' CHR ''-''"

definition dave_user :: User where
  "dave_user = \<lparr>scm_Login = ''dave'', scm_Name = ''Dave D'', scm_Email = ''dave@x.com'',
                 scm_Link = ''https://git.example/dave'', scm_Avatar = []\<rparr>"

definition erin_user :: User where
  "erin_user = \<lparr>scm_Login = ''erin'', scm_Name = ''Erin E'', scm_Email = [],
                 scm_Link = [], scm_Avatar = []\<rparr>"

definition grace_user :: User where
  "grace_user = \<lparr>scm_Login = [], scm_Name = ''Grace G Hopper'', scm_Email = ''grace@x.com'',
                  scm_Link = [], scm_Avatar = []\<rparr>"

definition demo_client :: Client where
  "demo_client h login =
     (if login = ''dave'' then (Some dave_user, None)
      else if login = ''erin'' then (Some erin_user, Some (Err ''503 Service Unavailable''))
      else if login = ''frank'' then (None, Some (Err ''connection refused''))
      else if login = ''grace'' then (Some grace_user, None)
      else (None, Some (Err ''Not Found'')))"

definition demo_resolver :: GitUserResolver where
  "demo_resolver = \<lparr>GitProvider = Some demo_client\<rparr>"

definition demo_env :: env where
  "demo_env = \<lparr>IsScmNotFound = (\<lambda>err. err = Some (Err ''Not Found'')),
                ToValidName = demo_ToValidName,
                ToLower = demo_ToLower,
                StorageError = (\<lambda>h u. None)\<rparr>"

definition failing_storage_env :: env where
  "failing_storage_env = demo_env\<lparr>StorageError := (\<lambda>h u. Some (Err ''storage unavailable''))\<rparr>"

definition marking_env :: env where
  "marking_env = demo_env\<lparr>ToValidName := (\<lambda>name. name @ ''+'')\<rparr>"

definition empty_world :: world where
  "empty_world = \<lparr>cache = Map.empty, trace = []\<rparr>"

section \<open>Shared lemmas\<close>

lemmas resolver_defs =
  Resolve_def GetUser_def FindLogin_def CreateOrUpdateUser_def GitUserToUser_def Let_def

lemmas demo_defs =
  demo_env_def demo_resolver_def demo_client_def empty_world_def dave_user_def erin_user_def
  grace_user_def

lemmas demo_string_defs = demo_ToValidName_def demo_ToLower_def strings_Replace_def

lemma Resolve_cached:
  "scm_Name usr \<noteq> [] \<Longrightarrow> cache s (scm_Name usr) = Some d \<Longrightarrow>
   Resolve e (Some rr) (Some usr) s =
     (Return (Some d, None), s\<lparr>trace := trace s @ [CacheGetUser (scm_Name usr)]\<rparr>)"
  by (simp add: Resolve_def GetUser_def)

text \<open>
  The login path once the directory has answered with a user and no error: what is left
  is the write of the record under its canonical key.
\<close>

lemma Resolve_found:
  assumes "scm_Name usr \<noteq> []" and "cache s (scm_Name usr) = None" and "scm_Login usr \<noteq> []"
    and "GitProvider rr = Some client"
    and "client (trace s @ [CacheGetUser (scm_Name usr)]) (scm_Login usr) = (Some scmUser, None)"
    and "\<not> IsScmNotFound e None"
    and "key = (if scm_Login scmUser \<noteq> [] then scm_Login scmUser
                else ToLower e (strings_Replace (scm_Name scmUser) CHR '' '' CHR ''-''))"
    and "u = \<lparr>ud_Login = scm_Login scmUser, ud_Name = ToValidName e (ToValidName e key),
              ud_Email = scm_Email scmUser\<rparr>"
    and "h = trace s @ [CacheGetUser (scm_Name usr), UsersFindLogin (scm_Login usr)]"
  shows "Resolve e (Some rr) (Some usr) s =
           (case StorageError e h u of
              Some err \<Rightarrow>
                (Return (None, Some (Wrapf err ''failed to create User'')),
                 s\<lparr>trace := h @ [CacheCreateOrUpdateUser u]\<rparr>)
            | None \<Rightarrow>
                (Return (Some u, None),
                 s\<lparr>cache := (cache s)(ud_Name u \<mapsto> u), trace := h @ [CacheCreateOrUpdateUser u]\<rparr>))"
proof (cases "scm_Login scmUser = []")
  case True
  with assms show ?thesis by (simp add: resolver_defs split: option.splits)
next
  case False
  with assms show ?thesis by (simp add: resolver_defs split: option.splits)
qed

lemma ResolveBatch_spec_error_nil:
  "ResolveBatch_spec e r users s = (Return (ds, Some err), s') \<Longrightarrow> ds = []"
  by (induction users arbitrary: s ds)
     (auto split: prod.splits outcome.splits option.splits)

text \<open>The loop with any slice built so far, against the spec's batch from the same state.\<close>

lemma loop_eq_spec:
  "GitUserSliceAsUserDetailsSlice_loop e r users answer s =
     (case ResolveBatch_spec e r users s of
        (Panic, s') \<Rightarrow> (Panic, s')
      | (Return (ds, Some err), s') \<Rightarrow> (Return ([], Some err), s')
      | (Return (ds, None), s') \<Rightarrow> (Return (answer @ ds, None), s'))"
  by (induction users arbitrary: answer s)
     (auto split: prod.splits outcome.splits option.splits)

section \<open>Query failure\<close>

text \<open>
  C1, as the code has it. For an identity with a non-empty name that is not in the cache
  and a non-empty login: if the directory answers with a user together with an error
  that is not classified as not-found, \<^verbatim>\<open>Resolve\<close> returns that error wrapped with
  "failed to find user {login}" and a nil record; if the directory answers with no user,
  \<^verbatim>\<open>Resolve\<close> returns (nil, nil) whatever the error is. In both cases the cache is
  read once and not written.
\<close>

theorem Resolve_query_failure:
  assumes "scm_Name usr \<noteq> []" and "cache s (scm_Name usr) = None" and "scm_Login usr \<noteq> []"
    and "GitProvider rr = Some client"
    and "h = trace s @ [CacheGetUser (scm_Name usr)]"
    and "s' = s\<lparr>trace := trace s @ [CacheGetUser (scm_Name usr), UsersFindLogin (scm_Login usr)]\<rparr>"
  shows "(client h (scm_Login usr) = (Some scmUser, Some err) \<longrightarrow> \<not> IsScmNotFound e (Some err) \<longrightarrow>
            Resolve e (Some rr) (Some usr) s =
              (Return (None, Some (Wrapf err (''failed to find user '' @ scm_Login usr))), s'))
       \<and> (client h (scm_Login usr) = (None, any) \<longrightarrow>
            Resolve e (Some rr) (Some usr) s = (Return (None, None), s'))"
  using assms by (simp add: Resolve_def GetUser_def FindLogin_def)

text \<open>
  The directory answers \<open>erin\<close> with a user and a server error, and \<open>frank\<close> with no
  user and a connection error; neither error is a not-found error.
\<close>

theorem Resolve_query_failure_witness:
  "Resolve demo_env (Some demo_resolver)
     (Some \<lparr>scm_Login = ''erin'', scm_Name = ''Erin E'', scm_Email = [], scm_Link = [], scm_Avatar = []\<rparr>)
     empty_world
   = (Return (None, Some (Wrapf (Err ''503 Service Unavailable'') ''failed to find user erin'')),
      \<lparr>cache = Map.empty, trace = [CacheGetUser ''Erin E'', UsersFindLogin ''erin'']\<rparr>)
   \<and> Error_text (Wrapf (Err ''503 Service Unavailable'') ''failed to find user erin'')
       = ''failed to find user erin: 503 Service Unavailable''
   \<and> Resolve demo_env (Some demo_resolver)
     (Some \<lparr>scm_Login = ''frank'', scm_Name = ''Frank F'', scm_Email = [], scm_Link = [], scm_Avatar = []\<rparr>)
     empty_world
   = (Return (None, None),
      \<lparr>cache = Map.empty, trace = [CacheGetUser ''Frank F'', UsersFindLogin ''frank'']\<rparr>)"
proof -
  let ?erin = "\<lparr>scm_Login = ''erin'', scm_Name = ''Erin E'', scm_Email = [], scm_Link = [], scm_Avatar = []\<rparr>"
  let ?frank = "\<lparr>scm_Login = ''frank'', scm_Name = ''Frank F'', scm_Email = [], scm_Link = [], scm_Avatar = []\<rparr>"
  have miss: "cache empty_world n = None" for n by (simp add: empty_world_def)
  have provider: "GitProvider demo_resolver = Some demo_client" by (simp add: demo_resolver_def)
  have e1: "demo_client (trace empty_world @ [CacheGetUser (scm_Name ?erin)]) (scm_Login ?erin)
              = (Some erin_user, Some (Err ''503 Service Unavailable''))"
    by (simp add: demo_client_def)
  have e2: "\<not> IsScmNotFound demo_env (Some (Err ''503 Service Unavailable''))"
    by (simp add: demo_env_def)
  have f1: "demo_client (trace empty_world @ [CacheGetUser (scm_Name ?frank)]) (scm_Login ?frank)
              = (None, Some (Err ''connection refused''))"
    by (simp add: demo_client_def)
  have "Resolve demo_env (Some demo_resolver) (Some ?erin) empty_world =
          (Return (None, Some (Wrapf (Err ''503 Service Unavailable'') ''failed to find user erin'')),
           \<lparr>cache = Map.empty, trace = [CacheGetUser ''Erin E'', UsersFindLogin ''erin'']\<rparr>)"
    using Resolve_query_failure [where usr = ?erin and s = empty_world and e = demo_env,
        OF _ miss _ provider refl refl, THEN conjunct1, rule_format, OF _ _ e1 e2]
    by (simp add: empty_world_def)
  moreover have "Resolve demo_env (Some demo_resolver) (Some ?frank) empty_world =
          (Return (None, None),
           \<lparr>cache = Map.empty, trace = [CacheGetUser ''Frank F'', UsersFindLogin ''frank'']\<rparr>)"
    using Resolve_query_failure [where usr = ?frank and s = empty_world and e = demo_env,
        OF _ miss _ provider refl refl, THEN conjunct2, rule_format, OF _ _ f1]
    by (simp add: empty_world_def)
  ultimately show ?thesis by simp
qed

text \<open>
  C1 as stated fails where the directory answers with no user: the nil check comes first
  and the error, though not a not-found error, is dropped.
\<close>

theorem Resolve_query_failure_no_user_counterexample:
  "demo_client [CacheGetUser ''Frank F''] ''frank'' = (None, Some (Err ''connection refused''))
   \<and> \<not> IsScmNotFound demo_env (Some (Err ''connection refused''))
   \<and> cache empty_world ''Frank F'' = None
   \<and> fst (Resolve demo_env (Some demo_resolver)
        (Some \<lparr>scm_Login = ''frank'', scm_Name = ''Frank F'', scm_Email = [], scm_Link = [], scm_Avatar = []\<rparr>)
        empty_world) = Return (None, None)"
  by (simp add: demo_defs resolver_defs)

section \<open>Not found\<close>

text \<open>
  C8. For an identity with a non-empty name that is not in the cache and a non-empty
  login: if the directory returns no user, or its error is classified as not-found,
  \<^verbatim>\<open>Resolve\<close> returns (nil, nil); the cache is read once and never written.
\<close>

theorem Resolve_not_found:
  assumes "scm_Name usr \<noteq> []" and "cache s (scm_Name usr) = None" and "scm_Login usr \<noteq> []"
    and "GitProvider rr = Some client"
    and "client (trace s @ [CacheGetUser (scm_Name usr)]) (scm_Login usr) = (scmUser, err)"
    and "scmUser = None \<or> IsScmNotFound e err"
  shows "Resolve e (Some rr) (Some usr) s =
           (Return (None, None),
            s\<lparr>trace := trace s @ [CacheGetUser (scm_Name usr), UsersFindLogin (scm_Login usr)]\<rparr>)"
  using assms by (auto simp add: Resolve_def GetUser_def FindLogin_def split: option.splits)

theorem Resolve_not_found_witness:
  "Resolve demo_env (Some demo_resolver)
     (Some \<lparr>scm_Login = ''carol'', scm_Name = ''Carol C'', scm_Email = [], scm_Link = [], scm_Avatar = []\<rparr>)
     empty_world
   = (Return (None, None),
      \<lparr>cache = Map.empty, trace = [CacheGetUser ''Carol C'', UsersFindLogin ''carol'']\<rparr>)"
  using Resolve_not_found [of "\<lparr>scm_Login = ''carol'', scm_Name = ''Carol C'', scm_Email = [], scm_Link = [], scm_Avatar = []\<rparr>"
      empty_world demo_resolver demo_client None "Some (Err ''Not Found'')" demo_env]
  by (simp add: demo_defs)

section \<open>Cache first\<close>

text \<open>
  C5. For an identity with a non-empty name whose name is a key of the cache,
  \<^verbatim>\<open>Resolve\<close> returns the cached record and no error; the only effect is the one
  cache read: the directory is not called and the cache is not written.
\<close>

theorem Resolve_cache_hit:
  assumes "scm_Name usr \<noteq> []" and "cache s (scm_Name usr) = Some R"
  shows "Resolve e (Some rr) (Some usr) s =
           (Return (Some R, None), s\<lparr>trace := trace s @ [CacheGetUser (scm_Name usr)]\<rparr>)"
  using assms by (simp add: Resolve_def GetUser_def)

theorem Resolve_cache_hit_witness:
  "Resolve demo_env (Some demo_resolver)
     (Some \<lparr>scm_Login = [], scm_Name = ''alice'', scm_Email = [], scm_Link = [], scm_Avatar = []\<rparr>)
     \<lparr>cache = [''alice'' \<mapsto> \<lparr>ud_Login = ''al'', ud_Name = ''alice'', ud_Email = ''alice@x.com''\<rparr>],
      trace = []\<rparr>
   = (Return (Some \<lparr>ud_Login = ''al'', ud_Name = ''alice'', ud_Email = ''alice@x.com''\<rparr>, None),
      \<lparr>cache = [''alice'' \<mapsto> \<lparr>ud_Login = ''al'', ud_Name = ''alice'', ud_Email = ''alice@x.com''\<rparr>],
       trace = [CacheGetUser ''alice'']\<rparr>)"
  using Resolve_cache_hit [of "\<lparr>scm_Login = [], scm_Name = ''alice'', scm_Email = [], scm_Link = [], scm_Avatar = []\<rparr>"
      "\<lparr>cache = [''alice'' \<mapsto> \<lparr>ud_Login = ''al'', ud_Name = ''alice'', ud_Email = ''alice@x.com''\<rparr>], trace = []\<rparr>"
      "\<lparr>ud_Login = ''al'', ud_Name = ''alice'', ud_Email = ''alice@x.com''\<rparr>" demo_env demo_resolver]
  by simp

section \<open>The no-login path\<close>

text \<open>
  C7. For an identity with an empty login and a non-empty name that is not in the cache,
  \<^verbatim>\<open>Resolve\<close> returns the record with an empty login and the name and email of the
  input, and hands that record, whose key is the input name as it is, to the cache
  write; when the storage accepts the write there is no error and the cache holds the
  record under the input name.
\<close>

theorem Resolve_no_login:
  assumes "scm_Login usr = []" and "scm_Name usr \<noteq> []" and "cache s (scm_Name usr) = None"
    and "u = \<lparr>ud_Login = [], ud_Name = scm_Name usr, ud_Email = scm_Email usr\<rparr>"
  shows "fst (Resolve e (Some rr) (Some usr) s) =
           Return (Some u, map_option (\<lambda>err. Wrapf err ''failed to cache User'')
                             (StorageError e (trace s @ [CacheGetUser (scm_Name usr)]) u))
         \<and> trace (snd (Resolve e (Some rr) (Some usr) s)) =
           trace s @ [CacheGetUser (scm_Name usr), CacheCreateOrUpdateUser u]
         \<and> (StorageError e (trace s @ [CacheGetUser (scm_Name usr)]) u = None \<longrightarrow>
           Resolve e (Some rr) (Some usr) s =
             (Return (Some u, None),
              s\<lparr>cache := (cache s)(scm_Name usr \<mapsto> u),
                trace := trace s @ [CacheGetUser (scm_Name usr), CacheCreateOrUpdateUser u]\<rparr>))"
  using assms by (simp add: resolver_defs split: option.splits)

theorem Resolve_no_login_witness:
  "Resolve demo_env (Some demo_resolver)
     (Some \<lparr>scm_Login = [], scm_Name = ''bob'', scm_Email = ''bob@x.com'', scm_Link = [], scm_Avatar = []\<rparr>)
     empty_world
   = (Return (Some \<lparr>ud_Login = [], ud_Name = ''bob'', ud_Email = ''bob@x.com''\<rparr>, None),
      \<lparr>cache = [''bob'' \<mapsto> \<lparr>ud_Login = [], ud_Name = ''bob'', ud_Email = ''bob@x.com''\<rparr>],
       trace = [CacheGetUser ''bob'',
                CacheCreateOrUpdateUser \<lparr>ud_Login = [], ud_Name = ''bob'', ud_Email = ''bob@x.com''\<rparr>]\<rparr>)"
  using Resolve_no_login [of "\<lparr>scm_Login = [], scm_Name = ''bob'', scm_Email = ''bob@x.com'', scm_Link = [], scm_Avatar = []\<rparr>"
      empty_world "\<lparr>ud_Login = [], ud_Name = ''bob'', ud_Email = ''bob@x.com''\<rparr>"
      demo_env demo_resolver, THEN conjunct2, THEN conjunct2]
  by (simp add: demo_defs)

section \<open>Cache-write failure\<close>

text \<open>
  C3. When the cache write fails, the two branches differ. On the no-login path the
  record that was built is returned next to the wrapped error; on the login path the
  wrapped error is returned with a nil record.
\<close>

theorem Resolve_cache_write_failure:
  assumes "scm_Name usr \<noteq> []" and "cache s (scm_Name usr) = None"
  shows "(scm_Login usr = [] \<longrightarrow>
          StorageError e (trace s @ [CacheGetUser (scm_Name usr)]) (GitUserToUser usr) = Some err \<longrightarrow>
          fst (Resolve e (Some rr) (Some usr) s) =
            Return (Some (GitUserToUser usr), Some (Wrapf err ''failed to cache User'')))
       \<and> (scm_Login usr \<noteq> [] \<longrightarrow> GitProvider rr = Some client \<longrightarrow>
          client (trace s @ [CacheGetUser (scm_Name usr)]) (scm_Login usr) = (Some scmUser, None) \<longrightarrow>
          \<not> IsScmNotFound e None \<longrightarrow>
          StorageError e (trace s @ [CacheGetUser (scm_Name usr), UsersFindLogin (scm_Login usr)])
            ((GitUserToUser scmUser)\<lparr>ud_Name := ToValidName e (ToValidName e
                (if scm_Login scmUser = [] then ToLower e (strings_Replace (scm_Name scmUser) CHR '' '' CHR ''-'')
                 else scm_Login scmUser))\<rparr>) = Some err \<longrightarrow>
          fst (Resolve e (Some rr) (Some usr) s) =
            Return (None, Some (Wrapf err ''failed to create User'')))"
  using assms by (simp add: resolver_defs split: option.splits)

theorem Resolve_cache_write_failure_witness:
  "fst (Resolve failing_storage_env (Some demo_resolver)
     (Some \<lparr>scm_Login = [], scm_Name = ''bob'', scm_Email = ''bob@x.com'', scm_Link = [], scm_Avatar = []\<rparr>)
     empty_world)
   = Return (Some \<lparr>ud_Login = [], ud_Name = ''bob'', ud_Email = ''bob@x.com''\<rparr>,
             Some (Wrapf (Err ''storage unavailable'') ''failed to cache User''))
   \<and> fst (Resolve failing_storage_env (Some demo_resolver)
     (Some \<lparr>scm_Login = ''dave'', scm_Name = ''Dave D'', scm_Email = [], scm_Link = [], scm_Avatar = []\<rparr>)
     empty_world)
   = Return (None, Some (Wrapf (Err ''storage unavailable'') ''failed to create User''))"
  using Resolve_cache_write_failure [of "\<lparr>scm_Login = [], scm_Name = ''bob'', scm_Email = ''bob@x.com'', scm_Link = [], scm_Avatar = []\<rparr>"
      empty_world failing_storage_env "Err ''storage unavailable''" demo_resolver demo_client dave_user, THEN conjunct1]
    Resolve_cache_write_failure [of "\<lparr>scm_Login = ''dave'', scm_Name = ''Dave D'', scm_Email = [], scm_Link = [], scm_Avatar = []\<rparr>"
      empty_world failing_storage_env "Err ''storage unavailable''" demo_resolver demo_client dave_user, THEN conjunct2]
  by (simp add: demo_defs failing_storage_env_def GitUserToUser_def)

section \<open>The canonical key\<close>

text \<open>
  C6. On the login path, once the directory has answered with a user and no error, the
  key is the returned user's login when that is non-empty, and otherwise the display
  name with spaces replaced by hyphens and then lowercased; the sanitizer is applied to
  the chosen key twice, and the result is the name of the record handed to the cache
  write.
\<close>

theorem Resolve_canonical_key:
  assumes "scm_Name usr \<noteq> []" and "cache s (scm_Name usr) = None" and "scm_Login usr \<noteq> []"
    and "GitProvider rr = Some client"
    and "client (trace s @ [CacheGetUser (scm_Name usr)]) (scm_Login usr) = (Some scmUser, None)"
    and "\<not> IsScmNotFound e None"
    and "key = (if scm_Login scmUser \<noteq> [] then scm_Login scmUser
                else ToLower e (strings_Replace (scm_Name scmUser) CHR '' '' CHR ''-''))"
  shows "trace (snd (Resolve e (Some rr) (Some usr) s)) =
           trace s @ [CacheGetUser (scm_Name usr), UsersFindLogin (scm_Login usr),
                      CacheCreateOrUpdateUser
                        \<lparr>ud_Login = scm_Login scmUser,
                         ud_Name = ToValidName e (ToValidName e key),
                         ud_Email = scm_Email scmUser\<rparr>]"
  using Resolve_found [OF assms(1-6) assms(7) refl refl] by (simp split: option.splits)

text \<open>
  With a sanitizer that appends a mark, both applications show in the key of \<open>dave\<close>;
  a returned user without a login gets its key from the display name.
\<close>

theorem Resolve_canonical_key_witness:
  "trace (snd (Resolve marking_env (Some demo_resolver)
      (Some \<lparr>scm_Login = ''dave'', scm_Name = ''Dave D'', scm_Email = [], scm_Link = [], scm_Avatar = []\<rparr>)
      empty_world))
   = [CacheGetUser ''Dave D'', UsersFindLogin ''dave'',
      CacheCreateOrUpdateUser \<lparr>ud_Login = ''dave'', ud_Name = ''dave++'', ud_Email = ''dave@x.com''\<rparr>]
   \<and> trace (snd (Resolve demo_env (Some demo_resolver)
      (Some \<lparr>scm_Login = ''grace'', scm_Name = ''Grace'', scm_Email = [], scm_Link = [], scm_Avatar = []\<rparr>)
      empty_world))
   = [CacheGetUser ''Grace'', UsersFindLogin ''grace'',
      CacheCreateOrUpdateUser \<lparr>ud_Login = [], ud_Name = ''grace-g-hopper'', ud_Email = ''grace@x.com''\<rparr>]"
proof -
  let ?dave = "\<lparr>scm_Login = ''dave'', scm_Name = ''Dave D'', scm_Email = [], scm_Link = [], scm_Avatar = []\<rparr>"
  let ?grace = "\<lparr>scm_Login = ''grace'', scm_Name = ''Grace'', scm_Email = [], scm_Link = [], scm_Avatar = []\<rparr>"
  have miss: "cache empty_world n = None" for n by (simp add: empty_world_def)
  have provider: "GitProvider demo_resolver = Some demo_client" by (simp add: demo_resolver_def)
  have d5: "demo_client (trace empty_world @ [CacheGetUser (scm_Name ?dave)]) (scm_Login ?dave)
              = (Some dave_user, None)"
    by (simp add: demo_client_def)
  have d6: "\<not> IsScmNotFound marking_env None" by (simp add: marking_env_def demo_env_def)
  have d7: "''dave'' = (if scm_Login dave_user \<noteq> [] then scm_Login dave_user
              else ToLower marking_env (strings_Replace (scm_Name dave_user) CHR '' '' CHR ''-''))"
    by (simp add: dave_user_def)
  have g5: "demo_client (trace empty_world @ [CacheGetUser (scm_Name ?grace)]) (scm_Login ?grace)
              = (Some grace_user, None)"
    by (simp add: demo_client_def)
  have g6: "\<not> IsScmNotFound demo_env None" by (simp add: demo_env_def)
  have g7: "''grace-g-hopper'' = (if scm_Login grace_user \<noteq> [] then scm_Login grace_user
              else ToLower demo_env (strings_Replace (scm_Name grace_user) CHR '' '' CHR ''-''))"
    by (simp add: grace_user_def demo_env_def demo_string_defs)
  have marked: "ToValidName marking_env (ToValidName marking_env ''dave'') = ''dave++''"
    by (simp add: marking_env_def)
  have clean: "ToValidName demo_env (ToValidName demo_env ''grace-g-hopper'') = ''grace-g-hopper''"
    by (simp add: demo_env_def demo_string_defs)
  have "trace (snd (Resolve marking_env (Some demo_resolver) (Some ?dave) empty_world)) =
          [CacheGetUser ''Dave D'', UsersFindLogin ''dave'',
           CacheCreateOrUpdateUser \<lparr>ud_Login = ''dave'', ud_Name = ''dave++'', ud_Email = ''dave@x.com''\<rparr>]"
    using Resolve_canonical_key [OF _ miss _ provider d5 d6 d7]
    by (simp add: marked) (simp add: dave_user_def empty_world_def)
  moreover have "trace (snd (Resolve demo_env (Some demo_resolver) (Some ?grace) empty_world)) =
          [CacheGetUser ''Grace'', UsersFindLogin ''grace'',
           CacheCreateOrUpdateUser \<lparr>ud_Login = [], ud_Name = ''grace-g-hopper'', ud_Email = ''grace@x.com''\<rparr>]"
    using Resolve_canonical_key [OF _ miss _ provider g5 g6 g7]
    by (simp add: clean) (simp add: grace_user_def empty_world_def)
  ultimately show ?thesis by simp
qed

text \<open>
  C9. On the login path, when the write succeeds, the returned record keeps the login and
  the email of the directory's user, and its name is the sanitized canonical key: the
  directory's display name is not what the record's name holds.
\<close>

theorem Resolve_login_record:
  assumes "scm_Name usr \<noteq> []" and "cache s (scm_Name usr) = None" and "scm_Login usr \<noteq> []"
    and "GitProvider rr = Some client"
    and "client (trace s @ [CacheGetUser (scm_Name usr)]) (scm_Login usr) = (Some scmUser, None)"
    and "\<not> IsScmNotFound e None"
    and "key = (if scm_Login scmUser \<noteq> [] then scm_Login scmUser
                else ToLower e (strings_Replace (scm_Name scmUser) CHR '' '' CHR ''-''))"
    and "u = \<lparr>ud_Login = scm_Login scmUser, ud_Name = ToValidName e (ToValidName e key),
              ud_Email = scm_Email scmUser\<rparr>"
    and "StorageError e (trace s @ [CacheGetUser (scm_Name usr), UsersFindLogin (scm_Login usr)]) u = None"
  shows "fst (Resolve e (Some rr) (Some usr) s) = Return (Some u, None)"
  using Resolve_found [OF assms(1-8) refl] assms(9) by simp

theorem Resolve_login_record_witness:
  "fst (Resolve demo_env (Some demo_resolver)
      (Some \<lparr>scm_Login = ''dave'', scm_Name = ''Dave D'', scm_Email = [], scm_Link = [], scm_Avatar = []\<rparr>)
      empty_world)
   = Return (Some \<lparr>ud_Login = ''dave'', ud_Name = ''dave'', ud_Email = ''dave@x.com''\<rparr>, None)
   \<and> scm_Name dave_user = ''Dave D''"
proof -
  let ?usr = "\<lparr>scm_Login = ''dave'', scm_Name = ''Dave D'', scm_Email = [], scm_Link = [], scm_Avatar = []\<rparr>"
  let ?u = "\<lparr>ud_Login = ''dave'', ud_Name = ''dave'', ud_Email = ''dave@x.com''\<rparr>"
  have h1: "scm_Name ?usr \<noteq> []" by simp
  have h2: "cache empty_world (scm_Name ?usr) = None" by (simp add: empty_world_def)
  have h3: "scm_Login ?usr \<noteq> []" by simp
  have h4: "GitProvider demo_resolver = Some demo_client" by (simp add: demo_resolver_def)
  have h5: "demo_client (trace empty_world @ [CacheGetUser (scm_Name ?usr)]) (scm_Login ?usr)
              = (Some dave_user, None)"
    by (simp add: demo_client_def)
  have h6: "\<not> IsScmNotFound demo_env None" by (simp add: demo_env_def)
  have h7: "''dave'' = (if scm_Login dave_user \<noteq> [] then scm_Login dave_user
              else ToLower demo_env (strings_Replace (scm_Name dave_user) CHR '' '' CHR ''-''))"
    by (simp add: dave_user_def)
  have h8: "?u = \<lparr>ud_Login = scm_Login dave_user,
                   ud_Name = ToValidName demo_env (ToValidName demo_env ''dave''),
                   ud_Email = scm_Email dave_user\<rparr>"
    by (simp add: dave_user_def demo_env_def demo_string_defs)
  have h9: "StorageError demo_env
              (trace empty_world @ [CacheGetUser (scm_Name ?usr), UsersFindLogin (scm_Login ?usr)]) ?u = None"
    by (simp add: demo_env_def)
  show ?thesis
    using Resolve_login_record [OF h1 h2 h3 h4 h5 h6 h7 h8 h9] by (simp add: dave_user_def)
qed

section \<open>Signatures\<close>

text \<open>
  C10. A signature with an empty name and a non-empty email is not stopped by the
  short-circuit of \<^verbatim>\<open>GitSignatureAsUser\<close>, which wants both fields empty: it is handed
  to \<^verbatim>\<open>Resolve\<close>, whose guard on the empty name returns (nil, nil) before the cache
  or the directory is touched.
\<close>

theorem GitSignatureAsUser_empty_name:
  assumes "sig_Name sg = []" and "sig_Email sg \<noteq> []"
  shows "GitSignatureAsUser e r (Some sg) s =
           Resolve e r (Some \<lparr>scm_Login = [], scm_Name = [], scm_Email = sig_Email sg,
                               scm_Link = [], scm_Avatar = []\<rparr>) s
         \<and> GitSignatureAsUser e r (Some sg) s = (Return (None, None), s)"
  using assms by (simp add: GitSignatureAsUser_def Resolve_def split: option.splits)

theorem GitSignatureAsUser_empty_name_witness:
  "GitSignatureAsUser demo_env (Some demo_resolver) (Some \<lparr>sig_Name = [], sig_Email = ''ghost@x.com''\<rparr>)
     empty_world = (Return (None, None), empty_world)"
  using GitSignatureAsUser_empty_name [of "\<lparr>sig_Name = [], sig_Email = ''ghost@x.com''\<rparr>"
      demo_env "Some demo_resolver" empty_world, THEN conjunct2]
  by simp

section \<open>Batches\<close>

text \<open>
  C4. \<^verbatim>\<open>GitUserSliceAsUserDetailsSlice\<close> is the spec's batch: it resolves the
  identities in input order, leaves out those that resolve to nil, and at the first
  resolution error returns that error with a nil slice, whatever had been collected.
\<close>

theorem GitUserSliceAsUserDetailsSlice_refines_spec:
  "GitUserSliceAsUserDetailsSlice e r users s = ResolveBatch_spec e r users s
   \<and> (\<forall>ds err. fst (GitUserSliceAsUserDetailsSlice e r users s) = Return (ds, Some err) \<longrightarrow> ds = [])"
proof -
  have eq: "GitUserSliceAsUserDetailsSlice e r users s = ResolveBatch_spec e r users s"
    unfolding GitUserSliceAsUserDetailsSlice_def loop_eq_spec
    by (auto split: prod.splits outcome.splits option.splits dest: ResolveBatch_spec_error_nil)
  moreover have "ds = []" if "fst (ResolveBatch_spec e r users s) = Return (ds, Some err)" for ds err
    using that ResolveBatch_spec_error_nil [of e r users s ds err "snd (ResolveBatch_spec e r users s)"]
    by (cases "ResolveBatch_spec e r users s") simp
  ultimately show ?thesis by simp
qed

text \<open>
  A batch whose second identity fails: the record of the first is dropped and the third
  identity is never resolved. A batch whose second identity is not found: it is left out.
\<close>

theorem GitUserSliceAsUserDetailsSlice_refines_spec_witness:
  "fst (GitUserSliceAsUserDetailsSlice demo_env (Some demo_resolver)
          [\<lparr>scm_Login = [], scm_Name = ''bob'', scm_Email = ''bob@x.com'', scm_Link = [], scm_Avatar = []\<rparr>,
           \<lparr>scm_Login = ''erin'', scm_Name = ''Erin E'', scm_Email = [], scm_Link = [], scm_Avatar = []\<rparr>,
           dave_user] empty_world)
   = Return ([], Some (Wrapf (Err ''503 Service Unavailable'') ''failed to find user erin''))
   \<and> trace (snd (GitUserSliceAsUserDetailsSlice demo_env (Some demo_resolver)
          [\<lparr>scm_Login = [], scm_Name = ''bob'', scm_Email = ''bob@x.com'', scm_Link = [], scm_Avatar = []\<rparr>,
           \<lparr>scm_Login = ''erin'', scm_Name = ''Erin E'', scm_Email = [], scm_Link = [], scm_Avatar = []\<rparr>,
           dave_user] empty_world))
   = [CacheGetUser ''bob'',
      CacheCreateOrUpdateUser \<lparr>ud_Login = [], ud_Name = ''bob'', ud_Email = ''bob@x.com''\<rparr>,
      CacheGetUser ''Erin E'', UsersFindLogin ''erin'']
   \<and> fst (GitUserSliceAsUserDetailsSlice demo_env (Some demo_resolver)
          [\<lparr>scm_Login = [], scm_Name = ''bob'', scm_Email = ''bob@x.com'', scm_Link = [], scm_Avatar = []\<rparr>,
           \<lparr>scm_Login = ''carol'', scm_Name = ''Carol C'', scm_Email = [], scm_Link = [], scm_Avatar = []\<rparr>,
           dave_user] empty_world)
   = Return ([\<lparr>ud_Login = [], ud_Name = ''bob'', ud_Email = ''bob@x.com''\<rparr>,
              \<lparr>ud_Login = ''dave'', ud_Name = ''dave'', ud_Email = ''dave@x.com''\<rparr>], None)"
  using GitUserSliceAsUserDetailsSlice_refines_spec [of demo_env "Some demo_resolver"
          "[\<lparr>scm_Login = [], scm_Name = ''bob'', scm_Email = ''bob@x.com'', scm_Link = [], scm_Avatar = []\<rparr>,
           \<lparr>scm_Login = ''erin'', scm_Name = ''Erin E'', scm_Email = [], scm_Link = [], scm_Avatar = []\<rparr>,
           dave_user]" empty_world, THEN conjunct1]
    GitUserSliceAsUserDetailsSlice_refines_spec [of demo_env "Some demo_resolver"
          "[\<lparr>scm_Login = [], scm_Name = ''bob'', scm_Email = ''bob@x.com'', scm_Link = [], scm_Avatar = []\<rparr>,
           \<lparr>scm_Login = ''carol'', scm_Name = ''Carol C'', scm_Email = [], scm_Link = [], scm_Avatar = []\<rparr>,
           dave_user]" empty_world, THEN conjunct1]
  by (simp add: demo_defs resolver_defs demo_string_defs)

section \<open>Resolving twice\<close>

text \<open>
  C2, as the code has it. For an identity with login \<open>dave\<close> and a non-empty name that is
  not in the cache, where the directory answers \<open>dave\<close> with the user
  \<open>{login: dave, name: Dave D, email: dave@x.com}\<close> and no error, and the storage accepts
  the write: \<^verbatim>\<open>Resolve\<close> returns the record whose name is the sanitized form of
  \<open>dave\<close>, after one directory call, and the cache holds it under that key; resolving the
  same identity again returns the same record, so the same key. The second call is
  answered by the cache, with no directory call and no write, when the name of the
  identity is that key; with any other name the cache, read by the identity's name,
  misses again, and the directory is called a second time.
\<close>

theorem Resolve_twice:
  assumes "scm_Login usr = ''dave''" and "scm_Name usr \<noteq> []" and "cache s (scm_Name usr) = None"
    and "GitProvider rr = Some client"
    and "scmUser = \<lparr>scm_Login = ''dave'', scm_Name = ''Dave D'', scm_Email = ''dave@x.com'',
                     scm_Link = link, scm_Avatar = avatar\<rparr>"
    and "\<forall>h. client h ''dave'' = (Some scmUser, None)"
    and "\<not> IsScmNotFound e None"
    and "key = ToValidName e (ToValidName e ''dave'')"
    and "u = \<lparr>ud_Login = ''dave'', ud_Name = key, ud_Email = ''dave@x.com''\<rparr>"
    and "\<forall>h. StorageError e h u = None"
    and "s1 = snd (Resolve e (Some rr) (Some usr) s)"
  shows "fst (Resolve e (Some rr) (Some usr) s) = Return (Some u, None)
       \<and> trace s1 = trace s @ [CacheGetUser (scm_Name usr), UsersFindLogin ''dave'',
                                CacheCreateOrUpdateUser u]
       \<and> cache s1 key = Some u
       \<and> fst (Resolve e (Some rr) (Some usr) s1) = Return (Some u, None)
       \<and> (scm_Name usr = key \<longrightarrow>
            snd (Resolve e (Some rr) (Some usr) s1) = s1\<lparr>trace := trace s1 @ [CacheGetUser key]\<rparr>)
       \<and> (scm_Name usr \<noteq> key \<longrightarrow>
            trace (snd (Resolve e (Some rr) (Some usr) s1)) =
              trace s1 @ [CacheGetUser (scm_Name usr), UsersFindLogin ''dave'', CacheCreateOrUpdateUser u])"
proof -
  have login: "scm_Login usr \<noteq> []" using assms(1) by simp
  have found: "client h (scm_Login usr) = (Some scmUser, None)" for h
    using assms(1,6) by simp
  have raw: "''dave'' = (if scm_Login scmUser \<noteq> [] then scm_Login scmUser
                  else ToLower e (strings_Replace (scm_Name scmUser) CHR '' '' CHR ''-''))"
    using assms(5) by simp
  have u: "u = \<lparr>ud_Login = scm_Login scmUser, ud_Name = ToValidName e (ToValidName e ''dave''),
                ud_Email = scm_Email scmUser\<rparr>"
    using assms(5,8,9) by simp
  have name_u: "ud_Name u = key" using assms(9) by simp
  have stored: "StorageError e h u = None" for h using assms(10) by simp
  have first: "Resolve e (Some rr) (Some usr) s =
      (Return (Some u, None),
       s\<lparr>cache := (cache s)(key \<mapsto> u),
         trace := trace s @ [CacheGetUser (scm_Name usr), UsersFindLogin (scm_Login usr),
                             CacheCreateOrUpdateUser u]\<rparr>)"
    using Resolve_found [OF assms(2,3) login assms(4) found assms(7) raw u refl]
    by (simp add: stored name_u)
  have s1: "s1 = s\<lparr>cache := (cache s)(key \<mapsto> u),
         trace := trace s @ [CacheGetUser (scm_Name usr), UsersFindLogin (scm_Login usr),
                             CacheCreateOrUpdateUser u]\<rparr>"
    using first assms(11) by simp
  have hit: "cache s1 key = Some u" using s1 by simp
  have second_hit: "Resolve e (Some rr) (Some usr) s1 =
      (Return (Some u, None), s1\<lparr>trace := trace s1 @ [CacheGetUser key]\<rparr>)"
    if "scm_Name usr = key"
    using Resolve_cached [of usr s1 u e rr] assms(2) hit that by simp
  have second_miss: "Resolve e (Some rr) (Some usr) s1 =
      (Return (Some u, None),
       s1\<lparr>cache := (cache s1)(key \<mapsto> u),
          trace := trace s1 @ [CacheGetUser (scm_Name usr), UsersFindLogin (scm_Login usr),
                               CacheCreateOrUpdateUser u]\<rparr>)"
    if "scm_Name usr \<noteq> key"
  proof -
    have miss: "cache s1 (scm_Name usr) = None" using s1 that assms(3) by simp
    show ?thesis
      using Resolve_found [OF assms(2) miss login assms(4) found assms(7) raw u refl]
      by (simp add: stored name_u)
  qed
  have again: "fst (Resolve e (Some rr) (Some usr) s1) = Return (Some u, None)"
    using second_hit second_miss by (cases "scm_Name usr = key") simp_all
  have t1: "trace s1 = trace s @ [CacheGetUser (scm_Name usr), UsersFindLogin ''dave'',
                                  CacheCreateOrUpdateUser u]"
    using s1 assms(1) by simp
  show ?thesis
    using first t1 hit again second_hit second_miss assms(1) by simp
qed

text \<open>
  An identity named by the key itself is served from the cache the second time; the
  identity that carries the display name is not.
\<close>

theorem Resolve_twice_witness:
  "fst (Resolve demo_env (Some demo_resolver)
        (Some \<lparr>scm_Login = ''dave'', scm_Name = ''dave'', scm_Email = [], scm_Link = [], scm_Avatar = []\<rparr>)
        empty_world)
     = Return (Some \<lparr>ud_Login = ''dave'', ud_Name = ''dave'', ud_Email = ''dave@x.com''\<rparr>, None)
   \<and> trace (snd (Resolve demo_env (Some demo_resolver)
        (Some \<lparr>scm_Login = ''dave'', scm_Name = ''dave'', scm_Email = [], scm_Link = [], scm_Avatar = []\<rparr>)
        (snd (Resolve demo_env (Some demo_resolver)
           (Some \<lparr>scm_Login = ''dave'', scm_Name = ''dave'', scm_Email = [], scm_Link = [], scm_Avatar = []\<rparr>)
           empty_world))))
     = [CacheGetUser ''dave'', UsersFindLogin ''dave'',
        CacheCreateOrUpdateUser \<lparr>ud_Login = ''dave'', ud_Name = ''dave'', ud_Email = ''dave@x.com''\<rparr>,
        CacheGetUser ''dave'']
   \<and> fst (Resolve demo_env (Some demo_resolver)
        (Some \<lparr>scm_Login = ''dave'', scm_Name = ''Dave D'', scm_Email = [], scm_Link = [], scm_Avatar = []\<rparr>)
        (snd (Resolve demo_env (Some demo_resolver)
           (Some \<lparr>scm_Login = ''dave'', scm_Name = ''Dave D'', scm_Email = [], scm_Link = [], scm_Avatar = []\<rparr>)
           empty_world)))
     = Return (Some \<lparr>ud_Login = ''dave'', ud_Name = ''dave'', ud_Email = ''dave@x.com''\<rparr>, None)"
proof -
  let ?plain = "\<lparr>scm_Login = ''dave'', scm_Name = ''dave'', scm_Email = [], scm_Link = [], scm_Avatar = []\<rparr>"
  let ?shown = "\<lparr>scm_Login = ''dave'', scm_Name = ''Dave D'', scm_Email = [], scm_Link = [], scm_Avatar = []\<rparr>"
  let ?u = "\<lparr>ud_Login = ''dave'', ud_Name = ''dave'', ud_Email = ''dave@x.com''\<rparr>"
  have miss: "cache empty_world n = None" for n by (simp add: empty_world_def)
  have provider: "GitProvider demo_resolver = Some demo_client" by (simp add: demo_resolver_def)
  have answer: "\<forall>h. demo_client h ''dave'' = (Some dave_user, None)" by (simp add: demo_client_def)
  have ok: "\<not> IsScmNotFound demo_env None" by (simp add: demo_env_def)
  have key: "''dave'' = ToValidName demo_env (ToValidName demo_env ''dave'')"
    by (simp add: demo_env_def demo_string_defs)
  have stored: "\<forall>h. StorageError demo_env h ?u = None" by (simp add: demo_env_def)
  note plain = Resolve_twice [where usr = ?plain and s = empty_world,
      OF _ _ miss provider dave_user_def answer ok key refl stored refl]
  note shown = Resolve_twice [where usr = ?shown and s = empty_world,
      OF _ _ miss provider dave_user_def answer ok key refl stored refl]
  have p: "scm_Login ?plain = ''dave''" "scm_Name ?plain \<noteq> []" "scm_Name ?plain = ''dave''" by simp_all
  have q: "scm_Login ?shown = ''dave''" "scm_Name ?shown \<noteq> []" by simp_all
  show ?thesis
    using plain [OF p(1,2)] shown [OF q] by (simp add: empty_world_def)
qed

text \<open>
  C2 as stated fails for the identity that carries the display name: it is cached under
  \<open>dave\<close> and looked up under \<open>Dave D\<close>, so the second call asks the directory again.
\<close>

theorem Resolve_twice_counterexample:
  "cache empty_world ''Dave D'' = None
   \<and> demo_client [CacheGetUser ''Dave D''] ''dave'' = (Some dave_user, None)
   \<and> fst (Resolve demo_env (Some demo_resolver)
        (Some \<lparr>scm_Login = ''dave'', scm_Name = ''Dave D'', scm_Email = ''dave@x.com'', scm_Link = [], scm_Avatar = []\<rparr>)
        empty_world)
     = Return (Some \<lparr>ud_Login = ''dave'', ud_Name = ''dave'', ud_Email = ''dave@x.com''\<rparr>, None)
   \<and> trace (snd (Resolve demo_env (Some demo_resolver)
        (Some \<lparr>scm_Login = ''dave'', scm_Name = ''Dave D'', scm_Email = ''dave@x.com'', scm_Link = [], scm_Avatar = []\<rparr>)
        (snd (Resolve demo_env (Some demo_resolver)
           (Some \<lparr>scm_Login = ''dave'', scm_Name = ''Dave D'', scm_Email = ''dave@x.com'', scm_Link = [], scm_Avatar = []\<rparr>)
           empty_world))))
     = [CacheGetUser ''Dave D'', UsersFindLogin ''dave'',
        CacheCreateOrUpdateUser \<lparr>ud_Login = ''dave'', ud_Name = ''dave'', ud_Email = ''dave@x.com''\<rparr>,
        CacheGetUser ''Dave D'', UsersFindLogin ''dave'',
        CacheCreateOrUpdateUser \<lparr>ud_Login = ''dave'', ud_Name = ''dave'', ud_Email = ''dave@x.com''\<rparr>]"
  by (simp add: resolver_defs demo_env_def demo_resolver_def demo_client_def empty_world_def dave_user_def
       demo_string_defs)

end
